theory Spec2Isabelle
  imports Complex_Main
begin

section \<open>Exceptions\<close>

text \<open>
  Every exception the modelled code can raise is a value of \<open>error\<close>; a function that can
  raise returns \<open>error + 'a\<close> with \<open>Inl\<close> for the exception.  The four \<open>ValueError\<close>s of
  \<^verbatim>\<open>TradingLogic._normalize_quantity\<close> are kept apart by their message, and the two
  \<open>ValueError\<close>s of \<^verbatim>\<open>BinanceClientWrapper.place_order\<close> likewise.
\<close>

datatype error =
    QuantityRequired          \<comment> \<open>ValueError: Quantity is required for order placement.\<close>
  | InvalidQuantity           \<comment> \<open>ValueError: Invalid quantity value\<close>
  | QuantityRoundsToZero      \<comment> \<open>ValueError: ... rounds down to zero with step size ...\<close>
  | QuantityBelowMinimum      \<comment> \<open>ValueError: ... is below Binance minimum ...\<close>
  | DecimalInvalidOperation   \<comment> \<open>decimal.InvalidOperation raised by quantize\<close>
  | PriceRequired             \<comment> \<open>ValueError: price is required for LIMIT orders.\<close>
  | StopPriceRequired         \<comment> \<open>ValueError: stopPrice is required for STOP_MARKET orders.\<close>
  | ZeroDivisionError
  | TypeError
  | KeyError
  | BinanceAPIException
  | OtherException            \<comment> \<open>any other exception of the exchange client\<close>

section \<open>Python's Decimal, as far as the quantity normalizer uses it\<close>

text \<open>
  A finite \<^verbatim>\<open>decimal.Decimal\<close> is a sign, a coefficient and an exponent; its value is
  \<open>\<plusminus> coef * 10 ^ expo\<close>.  The exponent is part of the data: \<^verbatim>\<open>Decimal('0.001')\<close> and
  \<^verbatim>\<open>Decimal('0.00100000')\<close> are equal as numbers and differ as arguments of
  \<^verbatim>\<open>quantize\<close>.  NaN and the infinities are outside this model, and so are the exponent
  bounds of the default context; its precision of 28 digits is modelled.
\<close>

record decimal =
  dneg :: bool
  coef :: nat
  expo :: int

definition pow10 :: "int \<Rightarrow> rat" where
  "pow10 e = (if 0 \<le> e then 10 ^ nat e else 1 / 10 ^ nat (- e))"

definition dec_val :: "decimal \<Rightarrow> rat" where
  "dec_val d = (if dneg d then - 1 else 1) * of_nat (coef d) * pow10 (expo d)"

definition prec :: nat where
  "prec = 28"

fun ndigits :: "nat \<Rightarrow> nat" where
  "ndigits n = (if n < 10 then 1 else Suc (ndigits (n div 10)))"

declare ndigits.simps [simp del]

definition adjusted :: "decimal \<Rightarrow> int" where
  "adjusted d = expo d + int (ndigits (coef d)) - 1"

text \<open>\<^verbatim>\<open>Decimal._rescale(exp, ROUND_DOWN)\<close>: pad with zeros, or drop digits.\<close>

definition rescale_down :: "decimal \<Rightarrow> int \<Rightarrow> decimal" where
  "rescale_down d e =
     (if e \<le> expo d then d\<lparr>coef := coef d * 10 ^ nat (expo d - e), expo := e\<rparr>
      else d\<lparr>coef := coef d div 10 ^ nat (e - expo d), expo := e\<rparr>)"

text \<open>\<^verbatim>\<open>Decimal._rescale(exp, ROUND_HALF_EVEN)\<close>, the rounding of the default context.\<close>

definition rescale_half_even :: "decimal \<Rightarrow> int \<Rightarrow> decimal" where
  "rescale_half_even d e =
     (if e \<le> expo d then d\<lparr>coef := coef d * 10 ^ nat (expo d - e), expo := e\<rparr>
      else
        (let p = 10 ^ nat (e - expo d);
             q = coef d div p;
             r = coef d mod p
         in d\<lparr>coef := (if p < 2 * r \<or> (2 * r = p \<and> odd q) then q + 1 else q),
               expo := e\<rparr>))"

text \<open>
  \<^verbatim>\<open>self.quantize(exp, rounding=ROUND_DOWN)\<close>: only the exponent of the second argument is used.  A
  nonzero result that would need more than \<open>prec\<close> digits raises InvalidOperation.
\<close>

definition quantize :: "decimal \<Rightarrow> decimal \<Rightarrow> error + decimal" where
  "quantize self ex =
     (if coef self = 0 then Inr \<lparr>dneg = dneg self, coef = 0, expo = expo ex\<rparr>
      else if int prec < adjusted self - expo ex + 1 then Inl DecimalInvalidOperation
      else Inr (rescale_down self (expo ex)))"

text \<open>\<^verbatim>\<open>Decimal._fix\<close>: round a coefficient of more than \<open>prec\<close> digits to \<open>prec\<close> digits.\<close>

definition fix_prec :: "decimal \<Rightarrow> decimal" where
  "fix_prec d =
     (if ndigits (coef d) \<le> prec then d
      else
        (let r = rescale_half_even d (expo d + int (ndigits (coef d)) - int prec)
         in if prec < ndigits (coef r) then r\<lparr>coef := coef r div 10, expo := expo r + 1\<rparr>
            else r))"

function strip_zeros :: "nat \<Rightarrow> int \<Rightarrow> nat \<times> int" where
  "strip_zeros c e =
     (if c \<noteq> 0 \<and> c mod 10 = 0 then strip_zeros (c div 10) (e + 1) else (c, e))"
  by pat_completeness auto
termination
  by (relation "measure fst") auto

declare strip_zeros.simps [simp del]

text \<open>\<^verbatim>\<open>Decimal.normalize()\<close>: round to the context, then strip trailing zeros.\<close>

definition normalize_dec :: "decimal \<Rightarrow> decimal" where
  "normalize_dec d =
     (let dup = fix_prec d
      in if coef dup = 0 then \<lparr>dneg = dneg dup, coef = 0, expo = 0\<rparr>
         else (case strip_zeros (coef dup) (expo dup) of
                 (c, e) \<Rightarrow> \<lparr>dneg = dneg dup, coef = c, expo = e\<rparr>))"

text \<open>
  \<^verbatim>\<open>f"{d:.{p}f}"\<close> (and \<^verbatim>\<open>f"{d:.0f}"\<close> for \<open>p = 0\<close>): the fixed-point string with \<open>p\<close>
  fractional digits, rounded half-even.  The string is represented by the decimal it
  spells: sign, digits and \<open>p\<close>, which is what \<^verbatim>\<open>Decimal(str)\<close> reads back from it.
\<close>

definition format_f :: "decimal \<Rightarrow> nat \<Rightarrow> decimal" where
  "format_f d p = rescale_half_even d (- int p)"

section \<open>Quantity normalizer (\<^verbatim>\<open>trading_logic.py\<close>)\<close>

text \<open>
  The \<open>quantity\<close> argument: \<open>None\<close>, a value whose \<open>str\<close> is no decimal literal, or a
  float or string whose \<open>str\<close> is the decimal literal \<open>d\<close>.
\<close>

datatype quantity_arg = QNone | QInvalid | QDec decimal

text \<open>
  What \<^verbatim>\<open>lot_filter.get(key)\<close> gives: nothing (or an empty string), a string that is
  no decimal literal, or a decimal literal.
\<close>

datatype dec_field = FAbsent | FInvalid | FDec decimal

record exfilter =
  filterType :: string
  stepSize :: dec_field
  minQty :: dec_field

text \<open>
  A symbol's info is represented by its \<open>filters\<close> list; the empty dict that
  \<^verbatim>\<open>_get_symbol_info\<close> stores after a failed fetch has no filters.
\<close>

type_synonym symbol_info = "exfilter list"

type_synonym precision_cache = "string \<rightharpoonup> symbol_info"

text \<open>
  \<^verbatim>\<open>TradingLogic._get_symbol_info\<close>.  \<open>fetch\<close> is \<^verbatim>\<open>self.client.get_symbol_info\<close>: it
  raises, returns \<open>None\<close>, or returns the info.
\<close>

definition get_symbol_info ::
  "(string \<Rightarrow> error + symbol_info option) \<Rightarrow> precision_cache \<Rightarrow> string
     \<Rightarrow> symbol_info \<times> precision_cache" where
  "get_symbol_info fetch cache symbol =
     (case cache symbol of
        Some info \<Rightarrow> (info, cache)
      | None \<Rightarrow>
          (case fetch symbol of
             Inl e \<Rightarrow> ([], cache(symbol \<mapsto> []))
           | Inr None \<Rightarrow> ([], cache(symbol \<mapsto> []))
           | Inr (Some info) \<Rightarrow> (info, cache(symbol \<mapsto> info))))"

definition field_or :: "dec_field \<Rightarrow> decimal \<Rightarrow> dec_field" where
  "field_or v dflt = (case v of FAbsent \<Rightarrow> FDec dflt | _ \<Rightarrow> v)"

definition dec_of_nat :: "nat \<Rightarrow> decimal" where
  "dec_of_nat n = \<lparr>dneg = False, coef = n, expo = 0\<rparr>"

text \<open>\<^verbatim>\<open>max(0, -d.normalize().as_tuple().exponent)\<close>\<close>

definition precision_of :: "decimal \<Rightarrow> nat" where
  "precision_of d = nat (max 0 (- expo (normalize_dec d)))"

text \<open>\<^verbatim>\<open>TradingLogic._normalize_quantity\<close>, returning the result and the cache.\<close>

definition normalize_quantity ::
  "(string \<Rightarrow> error + symbol_info option) \<Rightarrow> precision_cache \<Rightarrow> string \<Rightarrow> quantity_arg
     \<Rightarrow> (error + decimal) \<times> precision_cache" where
  "normalize_quantity fetch cache symbol quantity =
     (case quantity of
        QNone \<Rightarrow> (Inl QuantityRequired, cache)
      | QInvalid \<Rightarrow> (Inl InvalidQuantity, cache)
      | QDec quantity_decimal \<Rightarrow>
          (let default_precision = precision_of quantity_decimal;
               fallback_str = format_f quantity_decimal default_precision;
               (symbol_info, cache') = get_symbol_info fetch cache symbol
           in case find (\<lambda>f. filterType f = ''LOT_SIZE'') symbol_info of
                None \<Rightarrow> (Inr fallback_str, cache')
              | Some lot_filter \<Rightarrow>
                  (case (field_or (stepSize lot_filter) (dec_of_nat 1),
                         field_or (minQty lot_filter) (dec_of_nat 0)) of
                     (FDec step_size, FDec min_qty) \<Rightarrow>
                       if coef step_size = 0 then (Inr fallback_str, cache')
                       else
                         (case quantize quantity_decimal step_size of
                            Inl e \<Rightarrow> (Inl e, cache')
                          | Inr normalized \<Rightarrow>
                              if coef normalized = 0 then (Inl QuantityRoundsToZero, cache')
                              else if dec_val normalized < dec_val min_qty
                                then (Inl QuantityBelowMinimum, cache')
                              else (Inr (format_f normalized (precision_of step_size)), cache'))
                   | _ \<Rightarrow> (Inr fallback_str, cache'))))"

section \<open>Exchange client (\<^verbatim>\<open>binance_client.py\<close>)\<close>

text \<open>
  Python floats (quantities, prices, averages) are idealised as exact rationals.  A
  quantity reaches the exchange either as the float the caller passed or as the string
  the normalizer produced.
\<close>

datatype qty = QFloat rat | QStr decimal

text \<open>The keyword arguments of \<^verbatim>\<open>futures_create_order\<close>; an absent key is \<open>None\<close>.\<close>

record order_params =
  p_symbol :: string
  p_side :: string
  p_type :: string
  p_quantity :: qty
  p_price :: "rat option"
  p_timeInForce :: "string option"
  p_stopPrice :: "rat option"
  p_reduceOnly :: bool

datatype order = Order (orderId: int)

text \<open>
  \<^verbatim>\<open>_execute_api_call(self.client.futures_create_order, **params)\<close>: the exchange
  answers with an order or raises.
\<close>

type_synonym create_order = "order_params \<Rightarrow> error + order"

text \<open>Truth value of an optional float: \<open>None\<close> and \<open>0.0\<close> are false.\<close>

definition truthy :: "rat option \<Rightarrow> bool" where
  "truthy v = (case v of None \<Rightarrow> False | Some x \<Rightarrow> x \<noteq> 0)"

text \<open>
  \<^verbatim>\<open>BinanceClientWrapper.place_order\<close>, returning the result together with the requests
  that reached the exchange (none when the wrapper raises before the call).
\<close>

definition client_place_order ::
  "create_order \<Rightarrow> string \<Rightarrow> string \<Rightarrow> string \<Rightarrow> qty \<Rightarrow> rat option \<Rightarrow> rat option \<Rightarrow> bool
     \<Rightarrow> (error + order) \<times> order_params list" where
  "client_place_order create symbol side order_type quantity price stop_price reduce_only =
     (let params = \<lparr>p_symbol = symbol, p_side = side, p_type = order_type,
                     p_quantity = quantity,
                     p_price = (if truthy price then price else None),
                     p_timeInForce = (if truthy price then Some ''GTC'' else None),
                     p_stopPrice = (if truthy stop_price then stop_price else None),
                     p_reduceOnly = False\<rparr>;
          params = (if order_type = ''MARKET''
                    then params\<lparr>p_price := None, p_timeInForce := None\<rparr> else params)
      in if order_type = ''STOP_MARKET'' \<and> \<not> truthy stop_price then (Inl StopPriceRequired, [])
         else if order_type = ''LIMIT'' \<and> \<not> truthy price then (Inl PriceRequired, [])
         else
           (let params = (if reduce_only then params\<lparr>p_reduceOnly := True\<rparr> else params)
            in (create params, [params])))"

text \<open>
  \<^verbatim>\<open>TradingLogic.place_order\<close>: the quantity goes through the normalizer before the
  exchange client is called.
\<close>

definition place_order ::
  "(string \<Rightarrow> error + symbol_info option) \<Rightarrow> precision_cache \<Rightarrow> create_order
     \<Rightarrow> string \<Rightarrow> string \<Rightarrow> string \<Rightarrow> quantity_arg \<Rightarrow> rat option \<Rightarrow> rat option \<Rightarrow> bool
     \<Rightarrow> (error + order) \<times> precision_cache \<times> order_params list" where
  "place_order fetch cache create symbol side order_type quantity price stop_price reduce_only =
     (case normalize_quantity fetch cache symbol quantity of
        (Inl e, cache') \<Rightarrow> (Inl e, cache', [])
      | (Inr normalized_quantity, cache') \<Rightarrow>
          (case client_place_order create symbol side order_type (QStr normalized_quantity)
                  price stop_price reduce_only of
             (r, sent) \<Rightarrow> (r, cache', sent)))"

section \<open>TWAP execution (\<^verbatim>\<open>advanced_orders.py\<close>)\<close>

datatype plan_status = Active | Completed | Cancelled | Errored

record twap_entry =
  tw_symbol :: string
  tw_side :: string
  total_quantity :: rat
  executed_quantity :: rat
  num_slices :: int
  current_slice :: int
  status :: plan_status
  orders :: "order list"

type_synonym twap_registry = "string \<rightharpoonup> twap_entry"

text \<open>In-place update of the entry \<^verbatim>\<open>active_twap_orders[order_id]\<close>.\<close>

definition modify :: "('k \<rightharpoonup> 'v) \<Rightarrow> 'k \<Rightarrow> ('v \<Rightarrow> 'v) \<Rightarrow> ('k \<rightharpoonup> 'v)" where
  "modify reg k f = (case reg k of None \<Rightarrow> reg | Some e \<Rightarrow> reg(k \<mapsto> f e))"

text \<open>\<^verbatim>\<open>AdvancedOrderManager.cancel_twap_order\<close>\<close>

definition cancel_twap_order :: "twap_registry \<Rightarrow> string \<Rightarrow> twap_registry \<times> bool" where
  "cancel_twap_order reg order_id =
     (case reg order_id of
        None \<Rightarrow> (reg, False)
      | Some e \<Rightarrow>
          if status e = Active then (reg(order_id \<mapsto> e\<lparr>status := Cancelled\<rparr>), True)
          else (reg, False))"

text \<open>\<^verbatim>\<open>AdvancedOrderManager.get_twap_status\<close>; \<open>None\<close> is the empty dict.\<close>

definition get_twap_status :: "twap_registry \<Rightarrow> string \<Rightarrow> twap_entry option" where
  "get_twap_status reg order_id = reg order_id"

definition twap_num_slices :: "int \<Rightarrow> int \<Rightarrow> int" where
  "twap_num_slices duration_minutes interval_seconds =
     max 1 ((duration_minutes * 60) div interval_seconds)"

definition twap_quantity_per_slice :: "rat \<Rightarrow> int \<Rightarrow> int \<Rightarrow> rat" where
  "twap_quantity_per_slice total_qty duration_minutes interval_seconds =
     total_qty / of_int (twap_num_slices duration_minutes interval_seconds)"

text \<open>
  The slice loop \<^verbatim>\<open>for i in range(num_slices)\<close>, with \<open>k\<close> iterations left and \<open>i\<close> the
  slice index.  The task is suspended only in the exchange call and in the sleep after
  it, so another coroutine can call \<^verbatim>\<open>cancel_twap_order\<close> only there:
  \<open>cancel_during i\<close> says that it does so while slice \<open>i\<close> is suspended.  \<open>exch i\<close> is
  the exchange's answer to the call of slice \<open>i\<close>.  The loop returns the exception that
  left it (if any), the registry, and the requests that reached the exchange.
\<close>

fun twap_loop ::
  "(nat \<Rightarrow> create_order) \<Rightarrow> (nat \<Rightarrow> bool) \<Rightarrow> string \<Rightarrow> string \<Rightarrow> string \<Rightarrow> rat
     \<Rightarrow> nat \<Rightarrow> nat \<Rightarrow> twap_registry \<Rightarrow> order_params list
     \<Rightarrow> error option \<times> twap_registry \<times> order_params list" where
  "twap_loop exch cancel_during order_id symbol side quantity_per_slice 0 i reg sent =
     (None, reg, sent)"
| "twap_loop exch cancel_during order_id symbol side quantity_per_slice (Suc k) i reg sent =
     (case reg order_id of
        None \<Rightarrow> (Some KeyError, reg, sent)
      | Some e \<Rightarrow>
          if status e \<noteq> Active then (None, reg, sent)
          else
            (case client_place_order (exch i) symbol side ''MARKET''
                    (QFloat quantity_per_slice) None None False of
               (r, calls) \<Rightarrow>
                 (let reg1 = (if cancel_during i then fst (cancel_twap_order reg order_id)
                              else reg)
                  in case r of
                       Inr order \<Rightarrow>
                         twap_loop exch cancel_during order_id symbol side quantity_per_slice
                           k (Suc i)
                           (modify reg1 order_id
                              (\<lambda>e. e\<lparr>orders := orders e @ [order],
                                     executed_quantity := executed_quantity e + quantity_per_slice,
                                     current_slice := int i + 1\<rparr>))
                           (sent @ calls)
                     | Inl err \<Rightarrow>
                         (Some err,
                          (if err = BinanceAPIException
                           then modify reg1 order_id (\<lambda>e. e\<lparr>status := Errored\<rparr>) else reg1),
                          sent @ calls))))"

record twap_result =
  r_order_id :: string
  r_status :: plan_status
  r_total_quantity :: rat
  r_executed_quantity :: rat
  r_num_slices :: int
  r_orders :: "order list"

text \<open>
  \<^verbatim>\<open>AdvancedOrderManager.execute_twap_order\<close>: the returned dict or the exception, the
  registry afterwards, and the requests that reached the exchange.
\<close>

definition execute_twap_order ::
  "(nat \<Rightarrow> create_order) \<Rightarrow> (nat \<Rightarrow> bool) \<Rightarrow> twap_registry \<Rightarrow> string \<Rightarrow> string \<Rightarrow> string
     \<Rightarrow> rat \<Rightarrow> int \<Rightarrow> int \<Rightarrow> (error + twap_result) \<times> twap_registry \<times> order_params list" where
  "execute_twap_order exch cancel_during reg order_id symbol side total_qty duration_minutes
       interval_seconds =
     (if interval_seconds = 0
      then (Inl ZeroDivisionError, modify reg order_id (\<lambda>e. e\<lparr>status := Errored\<rparr>), [])
      else
        (let n = twap_num_slices duration_minutes interval_seconds;
             quantity_per_slice = twap_quantity_per_slice total_qty duration_minutes interval_seconds;
             reg0 = reg(order_id \<mapsto>
                      \<lparr>tw_symbol = symbol, tw_side = side, total_quantity = total_qty,
                       executed_quantity = 0, num_slices = n, current_slice = 0,
                       status = Active, orders = []\<rparr>)
         in case twap_loop exch cancel_during order_id symbol side quantity_per_slice
                   (nat n) 0 reg0 [] of
              (Some err, reg1, sent) \<Rightarrow>
                (Inl err, modify reg1 order_id (\<lambda>e. e\<lparr>status := Errored\<rparr>), sent)
            | (None, reg1, sent) \<Rightarrow>
                (let reg2 = modify reg1 order_id (\<lambda>e. e\<lparr>status := Completed\<rparr>)
                 in case reg2 order_id of
                      None \<Rightarrow> (Inl KeyError, reg2, sent)
                    | Some e \<Rightarrow>
                        (Inr \<lparr>r_order_id = order_id, r_status = Completed,
                              r_total_quantity = total_qty,
                              r_executed_quantity = executed_quantity e,
                              r_num_slices = n, r_orders = orders e\<rparr>,
                         reg2, sent))))"

section \<open>Grid placement (\<^verbatim>\<open>advanced_orders.py\<close>)\<close>



text \<open>An element of the local list \<open>orders\<close>: level number, price, exchange order.\<close>

record placed_level =
  level :: int
  price :: rat
  placed_order :: order








section \<open>Positions (\<^verbatim>\<open>binance_client.py\<close>)\<close>

text \<open>
  A position record, with the two keys the code reads.  \<open>positionAmt\<close> is absent, a
  string that is no number, or a number.
\<close>

datatype amt_field = AmtAbsent | AmtInvalid | AmtDec decimal

record position =
  pos_symbol :: "string option"
  positionAmt :: amt_field

text \<open>What \<^verbatim>\<open>futures_position_information\<close> returns: \<open>None\<close>, a list, or a single dict.\<close>

datatype positions_response = RespNone | RespList "position list" | RespDict position

text \<open>
  The exchange's position query; its argument is the \<open>symbol\<close> keyword, \<open>None\<close> when
  the call is made without it.
\<close>

type_synonym position_api = "string option \<Rightarrow> error + positions_response"

definition str_truthy :: "string option \<Rightarrow> bool" where
  "str_truthy s = (case s of None \<Rightarrow> False | Some x \<Rightarrow> x \<noteq> [])"

text \<open>\<^verbatim>\<open>BinanceClientWrapper.get_position_info\<close>\<close>

definition get_position_info :: "position_api \<Rightarrow> string option \<Rightarrow> error + positions_response" where
  "get_position_info api symbol = (if str_truthy symbol then api symbol else api None)"

text \<open>\<^verbatim>\<open>BinanceClientWrapper.get_positions\<close>\<close>

definition get_positions :: "position_api \<Rightarrow> string option \<Rightarrow> error + position list" where
  "get_positions api symbol =
     (case get_position_info api symbol of
        Inl e \<Rightarrow> Inl e
      | Inr RespNone \<Rightarrow> Inr []
      | Inr (RespList positions) \<Rightarrow>
          if str_truthy symbol
          then (let matching = filter (\<lambda>p. pos_symbol p = symbol) positions
                in Inr (if matching = [] then positions else matching))
          else Inr positions
      | Inr (RespDict p) \<Rightarrow> Inr [p])"

section \<open>Strategy supervisor (\<^verbatim>\<open>trading_logic.py\<close>)\<close>


text \<open>
  A call \<^verbatim>\<open>self.place_order(symbol, side, order_type, quantity, reduce_only=...)\<close> made
  by the supervisor; \<open>submit\<close> is that method, seen from its callers.
\<close>

record place_request =
  rq_symbol :: string
  rq_side :: string
  rq_type :: string
  rq_quantity :: "rat option"
  rq_reduce_only :: bool







definition dec_abs :: "decimal \<Rightarrow> decimal" where
  "dec_abs d = d\<lparr>dneg := False\<rparr>"








subsection \<open>One iteration of the strategy loop\<close>





section \<open>Requests and reference inputs\<close>

text \<open>The request a TWAP slice sends, and the request a grid level sends.\<close>

definition market_params :: "string \<Rightarrow> string \<Rightarrow> rat \<Rightarrow> order_params" where
  "market_params symbol side q =
     \<lparr>p_symbol = symbol, p_side = side, p_type = ''MARKET'', p_quantity = QFloat q,
      p_price = None, p_timeInForce = None, p_stopPrice = None, p_reduceOnly = False\<rparr>"


text \<open>An exchange that fills every order, and a run that nobody cancels.\<close>

definition always_fill :: "nat \<Rightarrow> create_order" where
  "always_fill i p = Inr (Order (int i))"

definition never_cancel :: "nat \<Rightarrow> bool" where
  "never_cancel i = False"

text \<open>An account whose only position is in another symbol.\<close>

definition eth_only :: position_api where
  "eth_only q = Inr (RespList [\<lparr>pos_symbol = Some ''ETHUSDT'',
       positionAmt = AmtDec \<lparr>dneg = False, coef = 5, expo = - 1\<rparr>\<rparr>])"

text \<open>A non-negative decimal literal with coefficient \<open>c\<close> and exponent \<open>e\<close>.\<close>

definition dec :: "nat \<Rightarrow> int \<Rightarrow> decimal" where
  "dec c e = \<lparr>dneg = False, coef = c, expo = e\<rparr>"

text \<open>
  A symbol info with a price filter and a LOT\_SIZE filter, a cache that holds it for
  BTCUSDT, and an exchange-info query that is never needed.
\<close>

definition lot_size :: "decimal \<Rightarrow> decimal \<Rightarrow> symbol_info" where
  "lot_size step minq =
     [\<lparr>filterType = ''PRICE_FILTER'', stepSize = FAbsent, minQty = FAbsent\<rparr>,
      \<lparr>filterType = ''LOT_SIZE'', stepSize = FDec step, minQty = FDec minq\<rparr>]"

definition cached :: "symbol_info \<Rightarrow> precision_cache" where
  "cached info = [''BTCUSDT'' \<mapsto> info]"

definition no_fetch :: "string \<Rightarrow> error + symbol_info option" where
  "no_fetch s = Inl OtherException"

text \<open>A cancellation that arrives while the first slice is suspended.\<close>

definition cancel_first :: "nat \<Rightarrow> bool" where
  "cancel_first i = (i = 0)"


definition close_request :: "string \<Rightarrow> decimal \<Rightarrow> place_request" where
  "close_request symbol a =
     \<lparr>rq_symbol = symbol, rq_side = (if dneg a then ''BUY'' else ''SELL''),
      rq_type = ''MARKET'', rq_quantity = Some \<bar>dec_val a\<bar>, rq_reduce_only = True\<rparr>"












section \<open>Auxiliary facts\<close>

lemma client_place_order_market:
  "client_place_order create symbol side ''MARKET'' (QFloat q) None None False
     = (create (market_params symbol side q), [market_params symbol side q])"
  by (simp add: client_place_order_def market_params_def truthy_def Let_def)



lemma pow10_pos: "0 < pow10 e"
  by (simp add: pow10_def)

lemma dec_val_pos_iff: "coef a \<noteq> 0 \<Longrightarrow> 0 < dec_val a \<longleftrightarrow> \<not> dneg a"
  using pow10_pos [of "expo a"]
  by (auto simp: dec_val_def zero_less_mult_iff mult_less_0_iff)

lemma dec_val_abs: "dec_val (dec_abs a) = \<bar>dec_val a\<bar>"
  using pow10_pos [of "expo a"]
  by (simp add: dec_val_def dec_abs_def abs_mult)

lemma flatten_request:
  "coef a \<noteq> 0 \<Longrightarrow>
   \<lparr>rq_symbol = symbol, rq_side = (if 0 < dec_val a then ''SELL'' else ''BUY''),
     rq_type = ''MARKET'', rq_quantity = Some (dec_val (dec_abs a)), rq_reduce_only = True\<rparr>
   = close_request symbol a"
  by (simp add: close_request_def dec_val_pos_iff dec_val_abs)

section \<open>Quantity normalizer: rounding\<close>

text \<open>Evaluation of the decimal operations, and the normalizer on a cached filter.\<close>

lemma ndigits_small: "n < 10 \<Longrightarrow> ndigits n = 1"
  by (subst ndigits.simps) simp

lemma ndigits_step: "\<not> n < 10 \<Longrightarrow> ndigits n = Suc (ndigits (n div 10))"
  by (subst ndigits.simps) simp

lemma strip_zeros_stop: "c = 0 \<or> c mod 10 \<noteq> 0 \<Longrightarrow> strip_zeros c e = (c, e)"
  by (subst strip_zeros.simps) auto

lemma strip_zeros_step:
  "c \<noteq> 0 \<Longrightarrow> c mod 10 = 0 \<Longrightarrow> strip_zeros c e = strip_zeros (c div 10) (e + 1)"
  by (subst strip_zeros.simps) simp

lemma precision_of_padded_step: "precision_of (dec 100000 (- 8)) = 3"
  by (simp add: precision_of_def normalize_dec_def fix_prec_def dec_def prec_def
        ndigits_small ndigits_step strip_zeros_stop strip_zeros_step)

lemma precision_of_plain_step: "precision_of (dec 1 (- 3)) = 3"
  by (simp add: precision_of_def normalize_dec_def fix_prec_def dec_def prec_def
        ndigits_small strip_zeros_stop)

lemma cached_lookup:
  "get_symbol_info fetch (cached info) ''BTCUSDT'' = (info, cached info)"
  by (simp add: get_symbol_info_def cached_def)

lemma find_lot_size:
  "find (\<lambda>f. filterType f = ''LOT_SIZE'') (lot_size step minq)
     = Some \<lparr>filterType = ''LOT_SIZE'', stepSize = FDec step, minQty = FDec minq\<rparr>"
  by (simp add: lot_size_def)

lemma dec_val_dec: "dec_val (dec c e) = of_nat c * pow10 e"
  by (simp add: dec_val_def dec_def)

lemma normalize_quantity_cached:
  "coef step \<noteq> 0 \<Longrightarrow>
   fst (normalize_quantity fetch (cached (lot_size step minq)) ''BTCUSDT'' (QDec q))
     = (case quantize q step of
          Inl e \<Rightarrow> Inl e
        | Inr normalized \<Rightarrow>
            if coef normalized = 0 then Inl QuantityRoundsToZero
            else if dec_val normalized < dec_val minq then Inl QuantityBelowMinimum
            else Inr (format_f normalized (precision_of step)))"
  by (simp add: normalize_quantity_def cached_lookup find_lot_size field_or_def Let_def
        split: sum.splits)

lemma quantize_16: "quantize (dec 16 (- 4)) (dec 100000 (- 8)) = Inr (dec 160000 (- 8))"
  by (simp add: quantize_def dec_def adjusted_def prec_def rescale_down_def
        ndigits_small ndigits_step)

lemma quantize_4: "quantize (dec 4 (- 4)) (dec 100000 (- 8)) = Inr (dec 40000 (- 8))"
  by (simp add: quantize_def dec_def adjusted_def prec_def rescale_down_def ndigits_small)

lemma quantize_0: "quantize (dec 0 (- 3)) (dec 100000 (- 8)) = Inr (dec 0 (- 8))"
  by (simp add: quantize_def dec_def)

lemma quantize_7: "quantize (dec 7 (- 4)) (dec 1 (- 3)) = Inr (dec 0 (- 3))"
  by (simp add: quantize_def dec_def adjusted_def prec_def rescale_down_def ndigits_small)

lemma format_16: "format_f (dec 160000 (- 8)) 3 = dec 2 (- 3)"
  by (simp add: format_f_def rescale_half_even_def dec_def Let_def)

lemma format_4: "format_f (dec 40000 (- 8)) 3 = dec 0 (- 3)"
  by (simp add: format_f_def rescale_half_even_def dec_def Let_def)

lemma normalize_0004:
  "fst (normalize_quantity no_fetch
          (cached (lot_size (dec 100000 (- 8)) (dec 10000 (- 8))))
          ''BTCUSDT'' (QDec (dec 4 (- 4))))
     = Inr (dec 0 (- 3))"
proof -
  have st: "coef (dec 100000 (- 8)) \<noteq> 0" by (simp add: dec_def)
  show ?thesis
    by (simp add: normalize_quantity_cached [OF st] quantize_4 format_4
          precision_of_padded_step dec_val_dec pow10_def)
       (simp add: dec_def)
qed

text \<open>
  On a step size written as a one and an exponent (\<open>0.001\<close>, \<open>1\<close>, \<open>1E+1\<close>) the two
  precisions agree.  There, for a non-negative quantity that fits the context
  precision, the normalizer returns the largest multiple of the step size that is not
  above the quantity, and raises when that multiple is zero or below the minimum.
\<close>

lemma pow10_powi: "pow10 e = 10 powi e"
  by (simp add: pow10_def power_int_def inverse_eq_divide power_one_over)

lemma pow10_add: "pow10 (a + b) = pow10 a * pow10 b"
  by (simp add: pow10_powi power_int_add)

lemma pow10_nat: "0 \<le> k \<Longrightarrow> pow10 k = 10 ^ nat k"
  by (simp add: pow10_def)

lemma precision_of_unit_step:
  "precision_of \<lparr>dneg = False, coef = Suc 0, expo = e\<rparr> = nat (max 0 (- e))"
  by (simp add: precision_of_def normalize_dec_def fix_prec_def prec_def ndigits_small
        strip_zeros_stop)

lemma rescale_down_coef:
  "coef (rescale_down q e) = nat \<lfloor>of_nat (coef q) * pow10 (expo q) / pow10 e\<rfloor>"
proof (cases "e \<le> expo q")
  case True
  have "pow10 (expo q) = pow10 (expo q - e) * pow10 e"
    using pow10_add [of "expo q - e" e] by simp
  then have "of_nat (coef q) * pow10 (expo q) / pow10 e
      = of_nat (coef q) * pow10 (expo q - e)"
    using pow10_pos [of e] by simp
  also have "\<dots> = of_nat (coef q * 10 ^ nat (expo q - e))"
    using True by (simp add: pow10_nat)
  finally have "\<lfloor>of_nat (coef q) * pow10 (expo q) / pow10 e\<rfloor>
      = int (coef q * 10 ^ nat (expo q - e))"
    by (simp only: floor_of_nat)
  then have "nat \<lfloor>of_nat (coef q) * pow10 (expo q) / pow10 e\<rfloor>
      = coef q * 10 ^ nat (expo q - e)"
    by (simp only: nat_int)
  with True show ?thesis by (simp add: rescale_down_def)
next
  case False
  then have lt: "0 \<le> e - expo q" by simp
  have "pow10 e = pow10 (e - expo q) * pow10 (expo q)"
    using pow10_add [of "e - expo q" "expo q"] by simp
  then have "of_nat (coef q) * pow10 (expo q) / pow10 e
      = of_nat (coef q) / pow10 (e - expo q)"
    using pow10_pos [of "expo q"] by simp
  also have "\<dots> = of_nat (coef q) / of_nat (10 ^ nat (e - expo q))"
    using lt by (simp add: pow10_nat)
  finally have "\<lfloor>of_nat (coef q) * pow10 (expo q) / pow10 e\<rfloor>
      = int (coef q div 10 ^ nat (e - expo q))"
    by (simp only: floor_divide_of_nat_eq)
  then have "nat \<lfloor>of_nat (coef q) * pow10 (expo q) / pow10 e\<rfloor>
      = coef q div 10 ^ nat (e - expo q)"
    by (simp only: nat_int)
  with False show ?thesis by (simp add: rescale_down_def)
qed

lemma rescale_down_shape:
  "dneg (rescale_down q e) = dneg q \<and> expo (rescale_down q e) = e"
  by (simp add: rescale_down_def)

lemma quantize_nonneg:
  assumes "\<not> dneg q" and "coef q = 0 \<or> adjusted q - e + 1 \<le> int prec"
  shows "quantize q \<lparr>dneg = sg, coef = c, expo = e\<rparr>
     = Inr \<lparr>dneg = False, coef = nat \<lfloor>dec_val q / pow10 e\<rfloor>, expo = e\<rparr>"
proof (cases "coef q = 0")
  case True
  with assms show ?thesis by (simp add: quantize_def dec_val_def)
next
  case False
  have v: "dec_val q = of_nat (coef q) * pow10 (expo q)"
    using assms(1) by (simp add: dec_val_def)
  have "rescale_down q e = \<lparr>dneg = False, coef = nat \<lfloor>dec_val q / pow10 e\<rfloor>, expo = e\<rparr>"
    using rescale_down_coef [of q e] rescale_down_shape [of q e] assms(1)
    by (cases "rescale_down q e") (simp add: v)
  with False assms(2) show ?thesis by (simp add: quantize_def)
qed

lemma format_f_pads:
  "format_f \<lparr>dneg = sg, coef = k, expo = e\<rparr> (nat (max 0 (- e)))
     = \<lparr>dneg = sg, coef = k * 10 ^ nat (e - min 0 e), expo = min 0 e\<rparr>"
proof -
  have "- int (nat (max 0 (- e))) = min 0 e" by simp
  then show ?thesis by (simp add: format_f_def rescale_half_even_def)
qed

lemma padded_value:
  "dec_val \<lparr>dneg = False, coef = k * 10 ^ nat (e - min 0 e), expo = min 0 e\<rparr>
     = of_nat k * pow10 e"
proof -
  have "pow10 e = pow10 (e - min 0 e) * pow10 (min 0 e)"
    using pow10_add [of "e - min 0 e" "min 0 e"] by simp
  moreover have "pow10 (e - min 0 e) = 10 ^ nat (e - min 0 e)"
    by (rule pow10_nat) simp
  ultimately show ?thesis by (simp add: dec_val_def)
qed

lemma normalize_quantity_unit_step:
  assumes cached: "cache symbol = Some info"
    and lot: "find (\<lambda>f. filterType f = ''LOT_SIZE'') info = Some lf"
    and st: "stepSize lf = FDec \<lparr>dneg = False, coef = 1, expo = e\<rparr>"
    and mq: "minQty lf = FDec minq"
    and nonneg: "\<not> dneg q"
    and fits: "coef q = 0 \<or> adjusted q - e + 1 \<le> int prec"
  shows "fst (normalize_quantity fetch cache symbol (QDec q))
     = (if \<lfloor>dec_val q / pow10 e\<rfloor> = 0 then Inl QuantityRoundsToZero
        else if of_int \<lfloor>dec_val q / pow10 e\<rfloor> * pow10 e < dec_val minq
          then Inl QuantityBelowMinimum
        else Inr \<lparr>dneg = False,
                  coef = nat \<lfloor>dec_val q / pow10 e\<rfloor> * 10 ^ nat (e - min 0 e),
                  expo = min 0 e\<rparr>)"
proof -
  define k where "k = \<lfloor>dec_val q / pow10 e\<rfloor>"
  have v0: "0 \<le> dec_val q"
    using nonneg pow10_pos [of "expo q"] by (simp add: dec_val_def)
  then have k0: "0 \<le> k"
    using pow10_pos [of e] by (simp add: k_def)
  have qz: "quantize q \<lparr>dneg = False, coef = Suc 0, expo = e\<rparr>
      = Inr \<lparr>dneg = False, coef = nat k, expo = e\<rparr>"
    unfolding k_def using nonneg fits by (rule quantize_nonneg)
  have val: "dec_val \<lparr>dneg = False, coef = nat k, expo = e\<rparr> = of_int k * pow10 e"
    using k0 by (simp add: dec_val_def)
  have zero: "nat k = 0 \<longleftrightarrow> k = 0" using k0 by auto
  have info: "get_symbol_info fetch cache symbol = (info, cache)"
    using cached by (simp add: get_symbol_info_def)
  have "fst (normalize_quantity fetch cache symbol (QDec q))
     = (if k = 0 then Inl QuantityRoundsToZero
        else if of_int k * pow10 e < dec_val minq then Inl QuantityBelowMinimum
        else Inr \<lparr>dneg = False, coef = nat k * 10 ^ nat (e - min 0 e), expo = min 0 e\<rparr>)"
    using k0
    by (auto simp: normalize_quantity_def info lot st mq field_or_def Let_def qz val
          precision_of_unit_step format_f_pads)
  then show ?thesis by (simp only: k_def)
qed

lemma normalize_quantity_unit_step_value:
  assumes "0 \<le> dec_val q"
  shows "dec_val \<lparr>dneg = False,
                  coef = nat \<lfloor>dec_val q / pow10 e\<rfloor> * 10 ^ nat (e - min 0 e),
                  expo = min 0 e\<rparr>
     = of_int \<lfloor>dec_val q / pow10 e\<rfloor> * pow10 e"
proof -
  have "0 \<le> \<lfloor>dec_val q / pow10 e\<rfloor>"
    using assms pow10_pos [of e] by simp
  then show ?thesis by (simp add: padded_value)
qed


lemma floor_multiple_is_largest:
  fixes v s :: rat
  assumes "0 < s"
  shows "of_int \<lfloor>v / s\<rfloor> * s \<le> v"
    and "of_int z * s \<le> v \<Longrightarrow> z \<le> \<lfloor>v / s\<rfloor>"
proof -
  have "of_int \<lfloor>v / s\<rfloor> * s \<le> (v / s) * s"
    using assms by (intro mult_right_mono of_int_floor_le) simp
  then show "of_int \<lfloor>v / s\<rfloor> * s \<le> v"
    using assms by simp
next
  assume "of_int z * s \<le> v"
  then have "of_int z \<le> v / s"
    using assms by (simp add: pos_le_divide_eq)
  then show "z \<le> \<lfloor>v / s\<rfloor>"
    by (simp only: le_floor_iff)
qed

text \<open>
  C4.  The normalizer quantizes with \<open>ROUND_DOWN\<close> at the exponent the step size is
  written with, and then formats the result at the precision of the step size without
  its trailing zeros, rounding half-even.  With the step size written \<open>0.00100000\<close>
  and the minimum \<open>0.00100000\<close>, the quantity \<open>0.0016\<close> is returned as \<open>0.002\<close>, which is
  larger than the request; with the minimum \<open>0.00010000\<close>, the quantity \<open>0.0004\<close> is
  returned as \<open>0.000\<close>, which is zero.  The claim (truncation down, never a zero
  result) fails at these inputs.
\<close>

theorem normalizer_rounds_up_on_padded_step:
  "fst (normalize_quantity no_fetch (cached (lot_size (dec 100000 (- 8)) (dec 100000 (- 8))))
          ''BTCUSDT'' (QDec (dec 16 (- 4))))
     = Inr (dec 2 (- 3))
   \<and> dec_val (dec 16 (- 4)) < dec_val (dec 2 (- 3))
   \<and> fst (normalize_quantity no_fetch (cached (lot_size (dec 100000 (- 8)) (dec 10000 (- 8))))
          ''BTCUSDT'' (QDec (dec 4 (- 4))))
       = Inr (dec 0 (- 3))
   \<and> dec_val (dec 0 (- 3)) = 0"
proof -
  have st: "coef (dec 100000 (- 8)) \<noteq> 0" by (simp add: dec_def)
  have a: "fst (normalize_quantity no_fetch
                  (cached (lot_size (dec 100000 (- 8)) (dec 100000 (- 8))))
                  ''BTCUSDT'' (QDec (dec 16 (- 4))))
      = Inr (dec 2 (- 3))"
    by (simp add: normalize_quantity_cached [OF st] quantize_16 format_16
          precision_of_padded_step dec_val_dec pow10_def)
       (simp add: dec_def)
  have b: "dec_val (dec 16 (- 4)) < dec_val (dec 2 (- 3))"
    by (simp add: dec_val_dec pow10_def)
  have c: "fst (normalize_quantity no_fetch
                  (cached (lot_size (dec 100000 (- 8)) (dec 10000 (- 8))))
                  ''BTCUSDT'' (QDec (dec 4 (- 4))))
      = Inr (dec 0 (- 3))"
    by (rule normalize_0004)
  have d: "dec_val (dec 0 (- 3)) = 0"
    by (simp add: dec_val_dec)
  show ?thesis using a b c d by blast
qed


text \<open>
  C9.  With the step size written \<open>0.00100000\<close> and the minimum \<open>0.00010000\<close>,
  normalizing \<open>0.0004\<close> succeeds with \<open>0.000\<close>, and normalizing that result again raises
  "rounds down to zero": the normalizer is not idempotent at this input.
\<close>

theorem normalizer_not_idempotent_on_padded_step:
  "fst (normalize_quantity no_fetch (cached (lot_size (dec 100000 (- 8)) (dec 10000 (- 8))))
          ''BTCUSDT'' (QDec (dec 4 (- 4))))
     = Inr (dec 0 (- 3))
   \<and> fst (normalize_quantity no_fetch (cached (lot_size (dec 100000 (- 8)) (dec 10000 (- 8))))
          ''BTCUSDT'' (QDec (dec 0 (- 3))))
       = Inl QuantityRoundsToZero"
proof -
  have st: "coef (dec 100000 (- 8)) \<noteq> 0" by (simp add: dec_def)
  have again: "fst (normalize_quantity no_fetch
                  (cached (lot_size (dec 100000 (- 8)) (dec 10000 (- 8))))
                  ''BTCUSDT'' (QDec (dec 0 (- 3))))
      = Inl QuantityRoundsToZero"
    by (simp add: normalize_quantity_cached [OF st] quantize_0) (simp add: dec_def)
  show ?thesis using normalize_0004 again by (rule conjI)
qed

section \<open>TWAP execution\<close>

lemma place_order_refused:
  "fst (normalize_quantity fetch cache symbol quantity) = Inl e \<Longrightarrow>
   fst (place_order fetch cache create symbol side order_type quantity pr stp
          reduce_only) = Inl e
   \<and> snd (snd (place_order fetch cache create symbol side order_type quantity pr stp
          reduce_only)) = []"
  by (cases "normalize_quantity fetch cache symbol quantity") (simp add: place_order_def)

text \<open>Every request a TWAP run sends carries the unrounded slice quantity.\<close>

lemma twap_loop_sends_raw:
  "set (snd (snd (twap_loop exch cancel_during oid symbol side q k i reg sent)))
     \<subseteq> set sent \<union> {market_params symbol side q}"
proof (induction k arbitrary: i reg sent)
  case 0
  show ?case by auto
next
  case (Suc k)
  show ?case
  proof (cases "reg oid")
    case None
    then show ?thesis by auto
  next
    case (Some e)
    show ?thesis
    proof (cases "status e = Active")
      case False
      with Some show ?thesis by auto
    next
      case True
      show ?thesis
      proof (cases "exch i (market_params symbol side q)")
        case (Inl err)
        with Some True show ?thesis
          by (auto simp: client_place_order_market Let_def)
      next
        case (Inr ord)
        let ?reg1 = "if cancel_during i then fst (cancel_twap_order reg oid) else reg"
        let ?reg2 = "modify ?reg1 oid
                       (\<lambda>e. e\<lparr>orders := orders e @ [ord],
                              executed_quantity := executed_quantity e + q,
                              current_slice := int i + 1\<rparr>)"
        have step: "twap_loop exch cancel_during oid symbol side q (Suc k) i reg sent
            = twap_loop exch cancel_during oid symbol side q k (Suc i) ?reg2
                (sent @ [market_params symbol side q])"
          using Some True Inr by (simp add: client_place_order_market Let_def)
        from Suc.IH [of "Suc i" ?reg2 "sent @ [market_params symbol side q]"]
        show ?thesis
          by (simp only: step) auto
      qed
    qed
  qed
qed

lemma execute_twap_order_sends_raw:
  "set (snd (snd (execute_twap_order exch cancel_during reg oid symbol side total_qty d s)))
     \<subseteq> {market_params symbol side (twap_quantity_per_slice total_qty d s)}"
proof (cases "s = 0")
  case True
  then show ?thesis by (simp add: execute_twap_order_def)
next
  case False
  let ?q = "twap_quantity_per_slice total_qty d s"
  let ?reg0 = "reg(oid \<mapsto>
                 \<lparr>tw_symbol = symbol, tw_side = side, total_quantity = total_qty,
                  executed_quantity = 0, num_slices = twap_num_slices d s, current_slice = 0,
                  status = Active, orders = []\<rparr>)"
  obtain err reg1 sent where loop:
    "twap_loop exch cancel_during oid symbol side ?q (nat (twap_num_slices d s)) 0 ?reg0 []
       = (err, reg1, sent)"
    by (cases "twap_loop exch cancel_during oid symbol side ?q (nat (twap_num_slices d s)) 0
                 ?reg0 []") auto
  from twap_loop_sends_raw [of exch cancel_during oid symbol side ?q
      "nat (twap_num_slices d s)" 0 ?reg0 "[]"] loop
  have sub: "set sent \<subseteq> {market_params symbol side ?q}" by simp
  have "snd (snd (execute_twap_order exch cancel_during reg oid symbol side total_qty d s)) = sent"
    using False loop
    by (cases err) (simp_all add: execute_twap_order_def Let_def split: option.splits)
  with sub show ?thesis by simp
qed

text \<open>
  C1.  A TWAP slice is sent to the exchange client directly, with the float
  \<open>total / slices\<close> as its quantity; the normalizer is not on this path.  For a symbol
  with step and minimum \<open>0.001\<close>, a TWAP of \<open>0.0007\<close> in one slice sends the quantity
  \<open>0.0007\<close>, below the minimum, where an order placed through
  \<^verbatim>\<open>TradingLogic.place_order\<close> is refused by the normalizer and sends nothing.
\<close>

theorem twap_sends_unnormalized_quantity:
  "snd (snd (execute_twap_order always_fill never_cancel Map.empty ''t1'' ''BTCUSDT'' ''BUY''
               (7 / 10000) 1 60))
     = [market_params ''BTCUSDT'' ''BUY'' (7 / 10000)]
   \<and> fst (place_order no_fetch (cached (lot_size (dec 1 (- 3)) (dec 1 (- 3)))) (always_fill 0)
            ''BTCUSDT'' ''BUY'' ''MARKET'' (QDec (dec 7 (- 4))) None None False)
       = Inl QuantityRoundsToZero
   \<and> snd (snd (place_order no_fetch (cached (lot_size (dec 1 (- 3)) (dec 1 (- 3)))) (always_fill 0)
            ''BTCUSDT'' ''BUY'' ''MARKET'' (QDec (dec 7 (- 4))) None None False))
       = []
   \<and> dec_val (dec 7 (- 4)) = 7 / 10000
   \<and> dec_val (dec 7 (- 4)) < dec_val (dec 1 (- 3))"
proof -
  have n: "twap_num_slices 1 60 = 1" by (simp add: twap_num_slices_def)
  have one: "nat 1 = Suc 0" by simp
  have a: "snd (snd (execute_twap_order always_fill never_cancel Map.empty ''t1'' ''BTCUSDT''
                       ''BUY'' (7 / 10000) 1 60))
      = [market_params ''BTCUSDT'' ''BUY'' (7 / 10000)]"
    by (simp add: execute_twap_order_def Let_def n one twap_quantity_per_slice_def
          client_place_order_market always_fill_def never_cancel_def modify_def)
  have st: "coef (dec 1 (- 3)) \<noteq> 0" by (simp add: dec_def)
  have r: "fst (normalize_quantity no_fetch (cached (lot_size (dec 1 (- 3)) (dec 1 (- 3))))
                  ''BTCUSDT'' (QDec (dec 7 (- 4))))
      = Inl QuantityRoundsToZero"
    by (simp only: normalize_quantity_cached [OF st] quantize_7 sum.case) (simp add: dec_def)
  note b = place_order_refused [OF r, of "always_fill 0" "''BUY''" "''MARKET''" None None False]
  have c: "dec_val (dec 7 (- 4)) = 7 / 10000"
    by (simp add: dec_val_dec pow10_def)
  have d: "dec_val (dec 7 (- 4)) < dec_val (dec 1 (- 3))"
    by (simp add: dec_val_dec pow10_def)
  show ?thesis using a b c d by blast
qed

text \<open>
  What cancellation does on its own: it succeeds exactly on an active plan, and changes
  nothing otherwise; and a plan that is not active places no further slice.
\<close>

lemma cancel_twap_order_active:
  "reg oid = Some e \<Longrightarrow> status e = Active \<Longrightarrow>
   cancel_twap_order reg oid = (reg(oid \<mapsto> e\<lparr>status := Cancelled\<rparr>), True)"
  by (simp add: cancel_twap_order_def)

lemma cancel_twap_order_not_active:
  "reg oid = Some e \<Longrightarrow> status e \<noteq> Active \<Longrightarrow> cancel_twap_order reg oid = (reg, False)"
  by (simp add: cancel_twap_order_def)

lemma cancel_twap_order_unknown:
  "reg oid = None \<Longrightarrow> cancel_twap_order reg oid = (reg, False)"
  by (simp add: cancel_twap_order_def)

lemma twap_loop_not_active:
  "reg oid = Some e \<Longrightarrow> status e \<noteq> Active \<Longrightarrow>
   twap_loop exch cancel_during oid symbol side q k i reg sent = (None, reg, sent)"
  by (cases k) simp_all

text \<open>
  C2.  A plan of three slices is cancelled while its first slice is suspended (the
  cancellation succeeds and sets the status to cancelled).  The next checkpoint leaves
  the loop, so only one request is sent; but the statement after the loop then sets the
  status to completed, and the plan reports completed, not cancelled.  The claim (the
  status remains cancelled) fails at this input.
\<close>

theorem twap_cancelled_plan_reports_completed:
  "map_option status
      (get_twap_status
         (fst (snd (execute_twap_order always_fill cancel_first Map.empty ''t1'' ''BTCUSDT''
                      ''BUY'' 3 3 60))) ''t1'')
     = Some Completed
   \<and> map_sum id r_status
        (fst (execute_twap_order always_fill cancel_first Map.empty ''t1'' ''BTCUSDT''
                ''BUY'' 3 3 60))
       = Inr Completed
   \<and> snd (snd (execute_twap_order always_fill cancel_first Map.empty ''t1'' ''BTCUSDT''
                 ''BUY'' 3 3 60))
       = [market_params ''BTCUSDT'' ''BUY'' 1]
   \<and> cancel_twap_order
         [''t1'' \<mapsto> \<lparr>tw_symbol = ''BTCUSDT'', tw_side = ''BUY'', total_quantity = 3,
                     executed_quantity = 0, num_slices = 3, current_slice = 0,
                     status = Active, orders = []\<rparr>] ''t1''
       = ([''t1'' \<mapsto> \<lparr>tw_symbol = ''BTCUSDT'', tw_side = ''BUY'', total_quantity = 3,
                     executed_quantity = 0, num_slices = 3, current_slice = 0,
                     status = Cancelled, orders = []\<rparr>], True)"
proof -
  have n: "twap_num_slices 3 60 = 3" by (simp add: twap_num_slices_def)
  have run: "execute_twap_order always_fill cancel_first Map.empty ''t1'' ''BTCUSDT'' ''BUY'' 3 3 60
      = (Inr \<lparr>r_order_id = ''t1'', r_status = Completed, r_total_quantity = 3,
              r_executed_quantity = 1, r_num_slices = 3, r_orders = [Order 0]\<rparr>,
         [''t1'' \<mapsto> \<lparr>tw_symbol = ''BTCUSDT'', tw_side = ''BUY'', total_quantity = 3,
                     executed_quantity = 1, num_slices = 3, current_slice = 1,
                     status = Completed, orders = [Order 0]\<rparr>],
         [market_params ''BTCUSDT'' ''BUY'' 1])"
    by (simp add: execute_twap_order_def Let_def n numeral_3_eq_3 twap_quantity_per_slice_def
          client_place_order_market always_fill_def cancel_first_def modify_def
          cancel_twap_order_def)
  show ?thesis
    by (simp add: run get_twap_status_def cancel_twap_order_def)
qed





section \<open>Grid placement\<close>







section \<open>Position query\<close>

text \<open>
  C10.  When \<open>get_positions\<close> is called with a symbol and the exchange returns a
  non-empty list without any record of that symbol, the whole unfiltered list is
  returned; the result is empty only when the exchange returns nothing (\<open>None\<close> or an
  empty list).
\<close>

theorem get_positions_falls_back_to_unfiltered:
  "(s \<noteq> [] \<and> api (Some s) = Inr (RespList ps) \<and> ps \<noteq> []
      \<and> (\<forall>p \<in> set ps. pos_symbol p \<noteq> Some s)
     \<longrightarrow> get_positions api (Some s) = Inr ps)
   \<and> (get_positions api symb = Inr [] \<longleftrightarrow>
        get_position_info api symb = Inr RespNone
        \<or> get_position_info api symb = Inr (RespList []))"
proof (intro conjI impI)
  assume h: "s \<noteq> [] \<and> api (Some s) = Inr (RespList ps) \<and> ps \<noteq> []
      \<and> (\<forall>p \<in> set ps. pos_symbol p \<noteq> Some s)"
  then have "filter (\<lambda>p. pos_symbol p = Some s) ps = []"
    by (simp add: filter_empty_conv)
  with h show "get_positions api (Some s) = Inr ps"
    by (simp add: get_positions_def get_position_info_def str_truthy_def)
next
  show "get_positions api symb = Inr [] \<longleftrightarrow>
        get_position_info api symb = Inr RespNone
        \<or> get_position_info api symb = Inr (RespList [])"
  proof (cases "get_position_info api symb")
    case (Inl e)
    then show ?thesis by (simp add: get_positions_def)
  next
    case (Inr r)
    show ?thesis
    proof (cases r)
      case RespNone
      with Inr show ?thesis by (simp add: get_positions_def)
    next
      case (RespList ps)
      have "filter (\<lambda>p. pos_symbol p = symb) ps = [] \<and> ps = [] \<longleftrightarrow> ps = []"
        by auto
      with Inr RespList show ?thesis
        by (auto simp: get_positions_def Let_def)
    next
      case (RespDict p)
      with Inr show ?thesis by (simp add: get_positions_def)
    qed
  qed
qed

theorem get_positions_falls_back_to_unfiltered_witness:
  "get_positions eth_only (Some ''BTCUSDT'')
     = Inr [\<lparr>pos_symbol = Some ''ETHUSDT'',
             positionAmt = AmtDec \<lparr>dneg = False, coef = 5, expo = - 1\<rparr>\<rparr>]"
  using get_positions_falls_back_to_unfiltered
    [of "''BTCUSDT''" eth_only
        "[\<lparr>pos_symbol = Some ''ETHUSDT'',
             positionAmt = AmtDec \<lparr>dneg = False, coef = 5, expo = - 1\<rparr>\<rparr>]" None]
  by (simp add: eth_only_def)

section \<open>Stopping a strategy\<close>








section \<open>Signal policy\<close>







end
